theory Spec2Isabelle
  imports Main "HOL-Library.Sublist" "HOL-Library.State_Monad" "HOL-Library.Monad_Syntax"
begin

section \<open>Python values used by the examples\<close>

text \<open>
  The examples pass \<^verbatim>\<open>str | None\<close> values around and test them for truth.
  A value of that type is a \<^typ>\<open>string option\<close>; Python counts \<^verbatim>\<open>None\<close> and the
  empty string as false and every other string as true.
\<close>

fun truthy :: "string option \<Rightarrow> bool" where
  "truthy None = False"
| "truthy (Some s) = (s \<noteq> [])"

text \<open>
  \<^verbatim>\<open>a or b\<close> evaluates to \<^verbatim>\<open>a\<close> when \<^verbatim>\<open>a\<close> is true and to \<^verbatim>\<open>b\<close> otherwise.
  \<open>or_str\<close> is the instance with \<^verbatim>\<open>b: str\<close> (the result is a string),
  \<open>or_opt\<close> the one with \<^verbatim>\<open>b: str | None\<close>.
\<close>

fun or_str :: "string option \<Rightarrow> string \<Rightarrow> string" where
  "or_str None b = b"
| "or_str (Some a) b = (if a \<noteq> [] then a else b)"

fun or_opt :: "string option \<Rightarrow> string option \<Rightarrow> string option" where
  "or_opt None b = b"
| "or_opt (Some a) b = (if a \<noteq> [] then Some a else b)"

text \<open>\<^verbatim>\<open>s.startswith(p)\<close>: the first \<^verbatim>\<open>len(p)\<close> characters of \<^verbatim>\<open>s\<close> are \<^verbatim>\<open>p\<close>.\<close>

definition startswith :: "string \<Rightarrow> string \<Rightarrow> bool" where
  "startswith s p = (take (length p) s = p)"

section \<open>The model provider of the tool filtering examples\<close>

text \<open>
  Modelled from the spec: the class \<^verbatim>\<open>AsyncOpenAI\<close> is not among the example files.
  A call \<^verbatim>\<open>AsyncOpenAI(base_url=..., api_key=...)\<close> is kept as the record of the two
  arguments it was given. Nothing is said about what the client makes of them.
\<close>

record AsyncOpenAI =
  base_url :: "string option"
  api_key :: "string option"

text \<open>
  Modelled from the spec: the class \<^verbatim>\<open>OpenAIChatCompletionsModel\<close> is not among the
  example files. It is the specification's endpoint descriptor (section 3): a model id
  and, mandatory, the client that holds the credential. A call
  \<^verbatim>\<open>OpenAIChatCompletionsModel(model=..., openai_client=...)\<close> is kept as the record
  of its arguments. The parameter \<^verbatim>\<open>openai_client\<close> is required: a call that passes
  none raises \<^verbatim>\<open>TypeError\<close> and constructs nothing.
\<close>

record OpenAIChatCompletionsModel =
  model :: "string option"
  openai_client :: AsyncOpenAI

text \<open>
  The errors: the two configuration errors that the specification names, and the
  \<^verbatim>\<open>TypeError\<close> of a call that lacks a required argument.
\<close>

datatype error = MissingCredential | AmbiguousStaticRule | TypeError

text \<open>
  \<^verbatim>\<open>class CustomModelProvider\<close> of \<^verbatim>\<open>tool_filtering_example/main.py\<close> (lines 35-54)
  and, with the same text, of \<^verbatim>\<open>dynamic_config_filter.py\<close> (lines 24-41).
  \<^verbatim>\<open>__init__\<close> builds a client only when both the base URL and the key are true
  values, and raises nothing.
\<close>

record CustomModelProvider =
  base_url :: "string option"
  api_key :: "string option"
  default_model :: string
  client :: "AsyncOpenAI option"

definition CustomModelProvider_init ::
    "string option \<Rightarrow> string option \<Rightarrow> string \<Rightarrow> CustomModelProvider" where
  "CustomModelProvider_init b k d =
     \<lparr>CustomModelProvider.base_url = b, CustomModelProvider.api_key = k, default_model = d,
      CustomModelProvider.client = (if truthy b \<and> truthy k
                then Some \<lparr>AsyncOpenAI.base_url = b, AsyncOpenAI.api_key = k\<rparr>
                else None)\<rparr>"

text \<open>
  \<^verbatim>\<open>get_model\<close>: with a client the model is constructed on it; without one the
  \<^verbatim>\<open>else\<close> branch calls \<^verbatim>\<open>OpenAIChatCompletionsModel(model=model_to_use)\<close>, which
  lacks the required client and raises.
\<close>

definition get_model ::
    "CustomModelProvider \<Rightarrow> string option \<Rightarrow> error + OpenAIChatCompletionsModel" where
  "get_model self model_name =
     (let model_to_use = or_str model_name (default_model self) in
      (case CustomModelProvider.client self of
         Some c \<Rightarrow> Inr \<lparr>model = Some model_to_use, openai_client = c\<rparr>
       | None \<Rightarrow> Inl TypeError))"

text \<open>
  A call of \<^verbatim>\<open>get_model\<close> as a computation on the provider object: it reads
  \<^verbatim>\<open>self.default_model\<close> and \<^verbatim>\<open>self.client\<close> and assigns to no attribute, whether
  it returns or raises. \<open>attr\<close> is an attribute read. A sequence of calls collects
  the outcome of each call, as a caller that catches the exception of one call and goes
  on to the next sees them.
\<close>

definition attr :: "('s \<Rightarrow> 'a) \<Rightarrow> ('s, 'a) state" where
  "attr f = State (\<lambda>s. (f s, s))"

definition get_model_call ::
    "string option \<Rightarrow> (CustomModelProvider, error + OpenAIChatCompletionsModel) state" where
  "get_model_call model_name = do {
     d \<leftarrow> attr default_model;
     let model_to_use = or_str model_name d;
     c \<leftarrow> attr CustomModelProvider.client;
     (case c of
        Some cl \<Rightarrow> State_Monad.return (Inr \<lparr>model = Some model_to_use, openai_client = cl\<rparr>)
      | None \<Rightarrow> State_Monad.return (Inl TypeError))
   }"

fun get_model_calls ::
    "string option list \<Rightarrow>
     (CustomModelProvider, (error + OpenAIChatCompletionsModel) list) state" where
  "get_model_calls [] = State_Monad.return []"
| "get_model_calls (n # ns) = do {
     m \<leftarrow> get_model_call n;
     ms \<leftarrow> get_model_calls ns;
     State_Monad.return (m # ms)
   }"

section \<open>The model provider of \<^verbatim>\<open>basic/stream_items.py\<close>\<close>

text \<open>
  The module reads three environment variables (each \<^verbatim>\<open>str | None\<close>) and builds one
  module-level \<^verbatim>\<open>client\<close>; its provider class has no attribute of its own:
  \<^verbatim>\<open>get_model\<close> reads the globals \<^verbatim>\<open>MODEL_NAME\<close> and \<^verbatim>\<open>client\<close>. A value of
  \<open>stream_items\<close> is the globals of the module once it has been loaded, so it has a
  client; how the client is constructed at load time, and whether that succeeds, is
  outside this model.
\<close>

record stream_items =
  MODEL_API_KEY :: "string option"
  MODEL_BASE_URL :: "string option"
  MODEL_NAME :: "string option"
  client :: AsyncOpenAI

definition get_model_stream_items ::
    "stream_items \<Rightarrow> string option \<Rightarrow> OpenAIChatCompletionsModel" where
  "get_model_stream_items g model_name =
     \<lparr>model = or_opt model_name (stream_items.MODEL_NAME g),
      openai_client = stream_items.client g\<rparr>"

definition get_model_stream_items_call ::
    "string option \<Rightarrow> (stream_items, OpenAIChatCompletionsModel) state" where
  "get_model_stream_items_call model_name = do {
     d \<leftarrow> attr stream_items.MODEL_NAME;
     c \<leftarrow> attr stream_items.client;
     State_Monad.return \<lparr>model = or_opt model_name d, openai_client = c\<rparr>
   }"

fun get_model_stream_items_calls ::
    "string option list \<Rightarrow> (stream_items, OpenAIChatCompletionsModel list) state" where
  "get_model_stream_items_calls [] = State_Monad.return []"
| "get_model_stream_items_calls (n # ns) = do {
     m \<leftarrow> get_model_stream_items_call n;
     ms \<leftarrow> get_model_stream_items_calls ns;
     State_Monad.return (m # ms)
   }"

section \<open>The tool filters\<close>

text \<open>
  Modelled from the spec: the class \<^verbatim>\<open>Agent\<close> is not among the example files. The
  examples construct agents with a \<^verbatim>\<open>name\<close> and \<^verbatim>\<open>instructions\<close>; the filters read
  the name only.
\<close>

record Agent =
  name :: string
  instructions :: string

text \<open>
  Modelled from the spec: the class \<^verbatim>\<open>ToolFilterContext\<close> is not among the example
  files. It is the specification's identity context: the agent that asks, and further
  content (here the server's name) that no filter of the examples reads.
\<close>

record ToolFilterContext =
  agent :: Agent
  server_name :: string

text \<open>
  Modelled from the spec: the class of the tool objects is not among the example files.
  It is the specification's tool descriptor: a \<^verbatim>\<open>name\<close> and metadata (a description
  and an input schema) that no filter of the examples reads.
\<close>

record Tool =
  name :: string
  description :: "string option"
  inputSchema :: "(string \<times> string) list"

text \<open>\<^verbatim>\<open>context_aware_filter\<close>, \<^verbatim>\<open>dynamic_config_filter.py\<close> lines 43-56.\<close>

definition context_aware_filter :: "ToolFilterContext \<Rightarrow> Tool \<Rightarrow> bool" where
  "context_aware_filter ctx tool =
     (let agent_name = Agent.name (agent ctx) in
      if agent_name = ''ReadOnlyAgent''
      then startswith (Tool.name tool) ''read_'' \<or> startswith (Tool.name tool) ''list_''
      else if agent_name = ''AdminAgent'' then True
      else if agent_name = ''BasicAgent''
      then Tool.name tool \<in> set [''read_file'', ''list_directory'']
      else False)"

text \<open>\<^verbatim>\<open>custom_filter\<close>, \<^verbatim>\<open>tool_filtering_example/main.py\<close> lines 196-199.\<close>

definition custom_filter :: "ToolFilterContext \<Rightarrow> Tool \<Rightarrow> bool" where
  "custom_filter ctx tool =
     (startswith (Tool.name tool) ''read_'' \<or> startswith (Tool.name tool) ''list_'')"

text \<open>
  A filter call as a computation on the objects it can reach: the context and the tool
  it is handed, and the module's globals (\<^verbatim>\<open>BASE_URL\<close>, \<^verbatim>\<open>API_KEY\<close>,
  \<^verbatim>\<open>MODEL_NAME\<close> and the runtime's tracing switch). Each attribute access of the body is
  a read of that state; the bodies contain no assignment and call nothing but
  \<^verbatim>\<open>str.startswith\<close>, \<^verbatim>\<open>==\<close> and \<^verbatim>\<open>in\<close> on the strings read.
\<close>

record heap =
  context_obj :: ToolFilterContext
  tool_obj :: Tool
  BASE_URL :: "string option"
  API_KEY :: "string option"
  MODEL_NAME :: string
  tracing_disabled :: bool

definition context_aware_filter_call :: "(heap, bool) state" where
  "context_aware_filter_call = do {
     agent_name \<leftarrow> attr (\<lambda>h. Agent.name (agent (context_obj h)));
     if agent_name = ''ReadOnlyAgent'' then do {
       n \<leftarrow> attr (\<lambda>h. Tool.name (tool_obj h));
       if startswith n ''read_'' then State_Monad.return True
       else do {
         n' \<leftarrow> attr (\<lambda>h. Tool.name (tool_obj h));
         State_Monad.return (startswith n' ''list_'')
       }
     }
     else if agent_name = ''AdminAgent'' then State_Monad.return True
     else if agent_name = ''BasicAgent'' then do {
       n \<leftarrow> attr (\<lambda>h. Tool.name (tool_obj h));
       State_Monad.return (n \<in> set [''read_file'', ''list_directory''])
     }
     else State_Monad.return False
   }"

definition custom_filter_call :: "(heap, bool) state" where
  "custom_filter_call = do {
     n \<leftarrow> attr (\<lambda>h. Tool.name (tool_obj h));
     if startswith n ''read_'' then State_Monad.return True
     else do {
       n' \<leftarrow> attr (\<lambda>h. Tool.name (tool_obj h));
       State_Monad.return (startswith n' ''list_'')
     }
   }"

section \<open>The filter rules and the access gate\<close>

text \<open>
  \<^verbatim>\<open>create_static_tool_filter\<close> and the server code that applies a filter to the tools
  it lists belong to \<^verbatim>\<open>agents.mcp\<close>, which is not among the example files. The four
  definitions below follow sections 3, 4.1 and 4.2 of the specification.
\<close>

text \<open>
  Modelled from the spec: the filter rule of section 3, missing with \<^verbatim>\<open>agents.mcp\<close>.
  A rule is static (an allowed set, a blocked set, each present or not) or dynamic (a
  predicate on the identity context and the tool descriptor; \<open>None\<close> is a predicate
  that raised).
\<close>

datatype FilterRule =
    Static "string set option" "string set option"
  | Dynamic "ToolFilterContext \<Rightarrow> Tool \<Rightarrow> bool option"

text \<open>
  Modelled from the spec: binding a rule to a connection, missing with \<^verbatim>\<open>agents.mcp\<close>.
  A static rule with both sets is ambiguous and is rejected when it is bound (section 3,
  invariants).
\<close>

fun bind_rule :: "FilterRule \<Rightarrow> error + FilterRule" where
  "bind_rule (Static (Some A) (Some B)) = Inl AmbiguousStaticRule"
| "bind_rule r = Inr r"

text \<open>
  Modelled from the spec: the filter evaluation of section 4.1, missing with
  \<^verbatim>\<open>agents.mcp\<close>. An allowed set passes its members, a blocked set passes everything
  but its members, neither passes everything, and a predicate that raised denies. The
  ambiguous rule never reaches evaluation; it denies.
\<close>

fun evaluate :: "FilterRule \<Rightarrow> ToolFilterContext \<Rightarrow> Tool \<Rightarrow> bool" where
  "evaluate (Static (Some A) None) ctx t = (Tool.name t \<in> A)"
| "evaluate (Static None (Some B)) ctx t = (Tool.name t \<notin> B)"
| "evaluate (Static None None) ctx t = True"
| "evaluate (Static (Some A) (Some B)) ctx t = False"
| "evaluate (Dynamic p) ctx t = (case p ctx t of Some b \<Rightarrow> b | None \<Rightarrow> False)"

text \<open>
  Modelled from the spec: the access gate of section 4.2, missing with \<^verbatim>\<open>agents.mcp\<close>.
  It applies the rule to every descriptor of the catalog and keeps, in order, those
  that pass.
\<close>

definition resolve :: "FilterRule \<Rightarrow> ToolFilterContext \<Rightarrow> Tool list \<Rightarrow> Tool list" where
  "resolve rule ctx catalog = filter (evaluate rule ctx) catalog"

text \<open>
  The two rules that \<^verbatim>\<open>main.py\<close> binds: \<^verbatim>\<open>create_static_tool_filter(
  blocked_tool_names=["delete_file"])\<close> (lines 181-184), and the function
  \<^verbatim>\<open>custom_filter\<close> itself (line 207), which returns on every input.
\<close>

definition static_rule_of_main :: FilterRule where
  "static_rule_of_main = Static None (Some {''delete_file''})"

definition dynamic_rule_of_main :: FilterRule where
  "dynamic_rule_of_main = Dynamic (\<lambda>ctx t. Some (custom_filter ctx t))"

section \<open>Properties\<close>

subsection \<open>Shared facts\<close>

lemma startswith_prefix: "startswith s p = prefix p s"
  unfolding startswith_def prefix_def
  by (metis append_eq_conv_conj append_take_drop_id)

lemma get_model_with_client:
  "CustomModelProvider.client self = Some c \<Longrightarrow>
     get_model self n = Inr \<lparr>model = Some (or_str n (default_model self)), openai_client = c\<rparr>"
  by (simp add: get_model_def Let_def)

lemma get_model_without_client:
  "CustomModelProvider.client self = None \<Longrightarrow> get_model self n = Inl TypeError"
  by (simp add: get_model_def Let_def)

lemma get_model_returns:
  "get_model self n = Inr m \<Longrightarrow>
     CustomModelProvider.client self = Some (openai_client m)
     \<and> model m = Some (or_str n (default_model self))"
  by (auto simp: get_model_def Let_def split: option.splits)

lemma client_init:
  "CustomModelProvider.client (CustomModelProvider_init b k d) =
     (if truthy b \<and> truthy k then Some \<lparr>AsyncOpenAI.base_url = b, AsyncOpenAI.api_key = k\<rparr> else None)"
  by (simp add: CustomModelProvider_init_def)

lemma default_model_init: "default_model (CustomModelProvider_init b k d) = d"
  by (simp add: CustomModelProvider_init_def)

text \<open>
  Each call, run on a state, has the outcome that the function computes from the objects
  it reads, and leaves the state as it found it.
\<close>

lemma call_context_aware_filter:
  "run_state context_aware_filter_call h = (context_aware_filter (context_obj h) (tool_obj h), h)"
  by (simp add: context_aware_filter_call_def context_aware_filter_def attr_def Let_def)

lemma call_custom_filter:
  "run_state custom_filter_call h = (custom_filter (context_obj h) (tool_obj h), h)"
  by (simp add: custom_filter_call_def custom_filter_def attr_def)

lemma call_get_model: "run_state (get_model_call n) self = (get_model self n, self)"
  by (simp add: get_model_call_def get_model_def attr_def Let_def split: option.split)

lemma call_get_model_stream_items:
  "run_state (get_model_stream_items_call n) g = (get_model_stream_items g n, g)"
  by (simp add: get_model_stream_items_call_def get_model_stream_items_def attr_def)

lemma custom_filter_prefix:
  "custom_filter ctx tool = (prefix ''read_'' (Tool.name tool) \<or> prefix ''list_'' (Tool.name tool))"
  by (simp add: custom_filter_def startswith_prefix)

lemma resolve_names:
  "map Tool.name (filter (\<lambda>t. P (Tool.name t)) C) = filter P (map Tool.name C)"
  by (induction C) simp_all

lemma four_names:
  assumes "map Tool.name C = [a, b, c, d]"
  obtains t1 t2 t3 t4 where "C = [t1, t2, t3, t4]"
    "Tool.name t1 = a" "Tool.name t2 = b" "Tool.name t3 = c" "Tool.name t4 = d"
  using assms by (auto simp: map_eq_Cons_conv)

subsection \<open>The model provider\<close>

text \<open>
  Claim C1 asks that a provider constructed with no credential fail with
  \<^verbatim>\<open>MissingCredential\<close> whenever a model is resolved. The code does otherwise: a
  provider constructed with \<^verbatim>\<open>api_key\<close> absent or empty is constructed without a
  client, and every call of \<^verbatim>\<open>get_model\<close> on it, whatever the requested name, ends
  in the \<^verbatim>\<open>TypeError\<close> of constructing the model without its client. No model is
  returned, and the error is not \<^verbatim>\<open>MissingCredential\<close>.
\<close>

theorem get_model_without_credential:
  "\<not> truthy k \<longrightarrow>
     CustomModelProvider.client (CustomModelProvider_init b k d) = None
     \<and> get_model (CustomModelProvider_init b k d) n = Inl TypeError
     \<and> get_model (CustomModelProvider_init b k d) n \<noteq> Inl MissingCredential"
  by (simp add: get_model_without_client client_init)

text \<open>
  Claim C1, the failing input: \<^verbatim>\<open>MODEL_BASE_URL\<close> is set, \<^verbatim>\<open>MODEL_API_KEY\<close> is
  not, and the model \<^verbatim>\<open>claude-3-sonnet\<close> is requested.
\<close>

theorem get_model_without_credential_witness:
  "\<not> truthy None
   \<and> CustomModelProvider.client
        (CustomModelProvider_init (Some ''https://example.test/v1'') None ''gpt-4o'') = None
   \<and> get_model (CustomModelProvider_init (Some ''https://example.test/v1'') None ''gpt-4o'')
        (Some ''claude-3-sonnet'') = Inl TypeError
   \<and> get_model (CustomModelProvider_init (Some ''https://example.test/v1'') None ''gpt-4o'')
        (Some ''claude-3-sonnet'') \<noteq> Inl MissingCredential"
  using get_model_without_credential [of None "Some ''https://example.test/v1''" "''gpt-4o''"
      "Some ''claude-3-sonnet''"]
  by simp

text \<open>
  Claim C2, as amended. On a provider that has a client: when the requested model name
  is present and not empty, \<^verbatim>\<open>get_model\<close> returns a model whose id is the requested
  name; when it is absent, the id is the configured default. The provider of
  \<^verbatim>\<open>stream_items.py\<close>, whose default is the global \<^verbatim>\<open>MODEL_NAME\<close>, does the same.
\<close>

theorem get_model_modelId:
  "(CustomModelProvider.client self = Some c \<longrightarrow>
      (n \<noteq> [] \<longrightarrow> get_model self (Some n) = Inr \<lparr>model = Some n, openai_client = c\<rparr>)
      \<and> get_model self None = Inr \<lparr>model = Some (default_model self), openai_client = c\<rparr>)
   \<and> (n \<noteq> [] \<longrightarrow> model (get_model_stream_items g (Some n)) = Some n)
   \<and> model (get_model_stream_items g None) = stream_items.MODEL_NAME g"
  by (simp add: get_model_with_client get_model_stream_items_def)

text \<open>
  Claim C2, witness: both providers are fully configured with the default
  \<^verbatim>\<open>gpt-4o\<close>; the request \<^verbatim>\<open>claude-3-sonnet\<close> yields \<^verbatim>\<open>claude-3-sonnet\<close>, and no
  request yields \<^verbatim>\<open>gpt-4o\<close>.
\<close>

theorem get_model_modelId_witness:
  "CustomModelProvider.client
     (CustomModelProvider_init (Some ''https://example.test/v1'') (Some ''sk-test'') ''gpt-4o'')
     = Some \<lparr>AsyncOpenAI.base_url = Some ''https://example.test/v1'',
             AsyncOpenAI.api_key = Some ''sk-test''\<rparr>
   \<and> ''claude-3-sonnet'' \<noteq> []
   \<and> get_model
        (CustomModelProvider_init (Some ''https://example.test/v1'') (Some ''sk-test'') ''gpt-4o'')
        (Some ''claude-3-sonnet'')
       = Inr \<lparr>model = Some ''claude-3-sonnet'',
              openai_client = \<lparr>AsyncOpenAI.base_url = Some ''https://example.test/v1'',
                AsyncOpenAI.api_key = Some ''sk-test''\<rparr>\<rparr>
   \<and> get_model
        (CustomModelProvider_init (Some ''https://example.test/v1'') (Some ''sk-test'') ''gpt-4o'')
        None
       = Inr \<lparr>model = Some ''gpt-4o'',
              openai_client = \<lparr>AsyncOpenAI.base_url = Some ''https://example.test/v1'',
                AsyncOpenAI.api_key = Some ''sk-test''\<rparr>\<rparr>
   \<and> model (get_model_stream_items
        \<lparr>MODEL_API_KEY = Some ''sk-test'', MODEL_BASE_URL = Some ''https://example.test/v1'',
         MODEL_NAME = Some ''gpt-4o'',
         stream_items.client = \<lparr>AsyncOpenAI.base_url = Some ''https://example.test/v1'',
           AsyncOpenAI.api_key = Some ''sk-test''\<rparr>\<rparr>
        (Some ''claude-3-sonnet'')) = Some ''claude-3-sonnet''
   \<and> model (get_model_stream_items
        \<lparr>MODEL_API_KEY = Some ''sk-test'', MODEL_BASE_URL = Some ''https://example.test/v1'',
         MODEL_NAME = Some ''gpt-4o'',
         stream_items.client = \<lparr>AsyncOpenAI.base_url = Some ''https://example.test/v1'',
           AsyncOpenAI.api_key = Some ''sk-test''\<rparr>\<rparr>
        None) = Some ''gpt-4o''"
  using get_model_modelId [where
      self = "CustomModelProvider_init (Some ''https://example.test/v1'') (Some ''sk-test'') ''gpt-4o''"
      and c = "\<lparr>AsyncOpenAI.base_url = Some ''https://example.test/v1'',
                AsyncOpenAI.api_key = Some ''sk-test''\<rparr>"
      and n = "''claude-3-sonnet''"
      and g = "\<lparr>MODEL_API_KEY = Some ''sk-test'', MODEL_BASE_URL = Some ''https://example.test/v1'',
                MODEL_NAME = Some ''gpt-4o'',
                stream_items.client = \<lparr>AsyncOpenAI.base_url = Some ''https://example.test/v1'',
                  AsyncOpenAI.api_key = Some ''sk-test''\<rparr>\<rparr>"]
  by (simp add: client_init default_model_init)

text \<open>
  Claim C2, as stated, fails: the empty string is a requested name that is present, and
  on a fully configured provider with the default \<^verbatim>\<open>gpt-4o\<close> the call
  \<^verbatim>\<open>get_model("")\<close> returns a model with the id \<^verbatim>\<open>gpt-4o\<close>, not with the requested
  name.
\<close>

theorem get_model_modelId_counterexample:
  "get_model
     (CustomModelProvider_init (Some ''https://example.test/v1'') (Some ''sk-test'') ''gpt-4o'')
     (Some '''')
    = Inr \<lparr>model = Some ''gpt-4o'',
           openai_client = \<lparr>AsyncOpenAI.base_url = Some ''https://example.test/v1'',
             AsyncOpenAI.api_key = Some ''sk-test''\<rparr>\<rparr>
   \<and> get_model
     (CustomModelProvider_init (Some ''https://example.test/v1'') (Some ''sk-test'') ''gpt-4o'')
     (Some '''')
    \<noteq> Inr \<lparr>model = Some '''',
           openai_client = \<lparr>AsyncOpenAI.base_url = Some ''https://example.test/v1'',
             AsyncOpenAI.api_key = Some ''sk-test''\<rparr>\<rparr>"
  by (simp add: get_model_def Let_def client_init default_model_init)

text \<open>
  Claim C3. For every requested name, the model that \<^verbatim>\<open>get_model\<close> returns is built
  on the provider's one client, the client that \<^verbatim>\<open>__init__\<close> constructed from the
  configured base URL and credential; two models returned by one provider differ in the
  model id only. A provider with a client returns a model for every name. The provider
  of \<^verbatim>\<open>stream_items.py\<close> likewise uses the module's one client for every name.
\<close>

theorem get_model_endpoint:
  "(CustomModelProvider.client self = Some c \<longrightarrow>
      get_model self n = Inr \<lparr>model = Some (or_str n (default_model self)), openai_client = c\<rparr>)
   \<and> (get_model self n = Inr m \<longrightarrow> CustomModelProvider.client self = Some (openai_client m))
   \<and> (get_model self n = Inr m \<and> get_model self n' = Inr m' \<longrightarrow> m' = m\<lparr>model := model m'\<rparr>)
   \<and> (get_model (CustomModelProvider_init b k d) n = Inr m \<longrightarrow>
        openai_client m = \<lparr>AsyncOpenAI.base_url = b, AsyncOpenAI.api_key = k\<rparr>)
   \<and> openai_client (get_model_stream_items g n) = stream_items.client g
   \<and> get_model_stream_items g n' =
       (get_model_stream_items g n)\<lparr>model := model (get_model_stream_items g n')\<rparr>"
proof -
  have with_client: "CustomModelProvider.client self = Some c \<longrightarrow>
      get_model self n = Inr \<lparr>model = Some (or_str n (default_model self)), openai_client = c\<rparr>"
    by (simp add: get_model_with_client)
  have same_client: "get_model self n = Inr m \<longrightarrow>
      CustomModelProvider.client self = Some (openai_client m)"
    by (simp add: get_model_returns)
  have only_id: "get_model self n = Inr m \<and> get_model self n' = Inr m' \<longrightarrow>
      m' = m\<lparr>model := model m'\<rparr>"
  proof (rule impI, elim conjE)
    assume a: "get_model self n = Inr m" and b: "get_model self n' = Inr m'"
    from get_model_returns [OF a] get_model_returns [OF b]
    have "openai_client m' = openai_client m" by simp
    then show "m' = m\<lparr>model := model m'\<rparr>" by simp
  qed
  have configured: "get_model (CustomModelProvider_init b k d) n = Inr m \<longrightarrow>
      openai_client m = \<lparr>AsyncOpenAI.base_url = b, AsyncOpenAI.api_key = k\<rparr>"
  proof
    assume "get_model (CustomModelProvider_init b k d) n = Inr m"
    from get_model_returns [OF this]
    show "openai_client m = \<lparr>AsyncOpenAI.base_url = b, AsyncOpenAI.api_key = k\<rparr>"
      by (simp add: client_init split: if_splits)
  qed
  have stream_client: "openai_client (get_model_stream_items g n) = stream_items.client g"
    by (simp add: get_model_stream_items_def)
  have stream_id: "get_model_stream_items g n' =
      (get_model_stream_items g n)\<lparr>model := model (get_model_stream_items g n')\<rparr>"
    by (simp add: get_model_stream_items_def)
  show ?thesis
    by (rule conjI [OF with_client conjI [OF same_client conjI [OF only_id
          conjI [OF configured conjI [OF stream_client stream_id]]]]])
qed

text \<open>
  Claim C3, witness: a fully configured provider asked for \<^verbatim>\<open>claude-3-sonnet\<close> and
  for no name; both models are built on the client of the configured base URL and
  credential and differ in the id only.
\<close>

theorem get_model_endpoint_witness:
  "CustomModelProvider.client
     (CustomModelProvider_init (Some ''https://example.test/v1'') (Some ''sk-test'') ''gpt-4o'')
     = Some \<lparr>AsyncOpenAI.base_url = Some ''https://example.test/v1'',
             AsyncOpenAI.api_key = Some ''sk-test''\<rparr>
   \<and> get_model
        (CustomModelProvider_init (Some ''https://example.test/v1'') (Some ''sk-test'') ''gpt-4o'')
        (Some ''claude-3-sonnet'')
       = Inr \<lparr>model = Some ''claude-3-sonnet'',
              openai_client = \<lparr>AsyncOpenAI.base_url = Some ''https://example.test/v1'',
                AsyncOpenAI.api_key = Some ''sk-test''\<rparr>\<rparr>
   \<and> get_model
        (CustomModelProvider_init (Some ''https://example.test/v1'') (Some ''sk-test'') ''gpt-4o'')
        None
       = Inr \<lparr>model = Some ''gpt-4o'',
              openai_client = \<lparr>AsyncOpenAI.base_url = Some ''https://example.test/v1'',
                AsyncOpenAI.api_key = Some ''sk-test''\<rparr>\<rparr>
   \<and> \<lparr>model = Some ''gpt-4o'',
        openai_client = \<lparr>AsyncOpenAI.base_url = Some ''https://example.test/v1'',
          AsyncOpenAI.api_key = Some ''sk-test''\<rparr>\<rparr>
     = \<lparr>model = Some ''claude-3-sonnet'',
        openai_client = \<lparr>AsyncOpenAI.base_url = Some ''https://example.test/v1'',
          AsyncOpenAI.api_key = Some ''sk-test''\<rparr>\<rparr>\<lparr>model := Some ''gpt-4o''\<rparr>"
  using get_model_endpoint [where
      self = "CustomModelProvider_init (Some ''https://example.test/v1'') (Some ''sk-test'') ''gpt-4o''"
      and c = "\<lparr>AsyncOpenAI.base_url = Some ''https://example.test/v1'',
                AsyncOpenAI.api_key = Some ''sk-test''\<rparr>"
      and n = "Some ''claude-3-sonnet''" and n' = None
      and m = "\<lparr>model = Some ''claude-3-sonnet'',
                openai_client = \<lparr>AsyncOpenAI.base_url = Some ''https://example.test/v1'',
                  AsyncOpenAI.api_key = Some ''sk-test''\<rparr>\<rparr>"
      and m' = "\<lparr>model = Some ''gpt-4o'',
                openai_client = \<lparr>AsyncOpenAI.base_url = Some ''https://example.test/v1'',
                  AsyncOpenAI.api_key = Some ''sk-test''\<rparr>\<rparr>"
      and b = "Some ''https://example.test/v1''" and k = "Some ''sk-test''" and d = "''gpt-4o''"]
  by (simp add: get_model_def Let_def client_init default_model_init)

subsection \<open>The filters\<close>

text \<open>
  Claim C4. For an agent name that is none of \<^verbatim>\<open>ReadOnlyAgent\<close>, \<^verbatim>\<open>AdminAgent\<close>,
  \<^verbatim>\<open>BasicAgent\<close> (the empty name included) the role-based filter denies every tool.
  For \<^verbatim>\<open>ReadOnlyAgent\<close> it allows exactly the tools whose name starts with
  \<^verbatim>\<open>read_\<close> or \<^verbatim>\<open>list_\<close>, for \<^verbatim>\<open>AdminAgent\<close> every tool, and for
  \<^verbatim>\<open>BasicAgent\<close> exactly \<^verbatim>\<open>read_file\<close> and \<^verbatim>\<open>list_directory\<close>.
\<close>

theorem context_aware_filter_roles:
  "(Agent.name (agent ctx) \<notin> {''ReadOnlyAgent'', ''AdminAgent'', ''BasicAgent''} \<longrightarrow>
      context_aware_filter ctx tool = False)
   \<and> (Agent.name (agent ctx) = ''ReadOnlyAgent'' \<longrightarrow>
      context_aware_filter ctx tool =
        (prefix ''read_'' (Tool.name tool) \<or> prefix ''list_'' (Tool.name tool)))
   \<and> (Agent.name (agent ctx) = ''AdminAgent'' \<longrightarrow> context_aware_filter ctx tool = True)
   \<and> (Agent.name (agent ctx) = ''BasicAgent'' \<longrightarrow>
      context_aware_filter ctx tool = (Tool.name tool \<in> {''read_file'', ''list_directory''}))"
  by (simp add: context_aware_filter_def startswith_prefix)

text \<open>
  Claim C4, witness: an agent with the empty name is denied \<^verbatim>\<open>read_file\<close>;
  \<^verbatim>\<open>ReadOnlyAgent\<close> gets \<^verbatim>\<open>list_directory\<close> and not \<^verbatim>\<open>write_file\<close>;
  \<^verbatim>\<open>AdminAgent\<close> gets \<^verbatim>\<open>delete_file\<close>; \<^verbatim>\<open>BasicAgent\<close> does not get
  \<^verbatim>\<open>read_text\<close>.
\<close>

theorem context_aware_filter_roles_witness:
  "'''' \<notin> {''ReadOnlyAgent'', ''AdminAgent'', ''BasicAgent''}
   \<and> context_aware_filter
        \<lparr>agent = \<lparr>Agent.name = '''', instructions = ''''\<rparr>, server_name = ''fs''\<rparr>
        \<lparr>Tool.name = ''read_file'', description = None, inputSchema = []\<rparr> = False
   \<and> context_aware_filter
        \<lparr>agent = \<lparr>Agent.name = ''ReadOnlyAgent'', instructions = ''''\<rparr>, server_name = ''fs''\<rparr>
        \<lparr>Tool.name = ''list_directory'', description = None, inputSchema = []\<rparr> = True
   \<and> context_aware_filter
        \<lparr>agent = \<lparr>Agent.name = ''ReadOnlyAgent'', instructions = ''''\<rparr>, server_name = ''fs''\<rparr>
        \<lparr>Tool.name = ''write_file'', description = None, inputSchema = []\<rparr> = False
   \<and> context_aware_filter
        \<lparr>agent = \<lparr>Agent.name = ''AdminAgent'', instructions = ''''\<rparr>, server_name = ''fs''\<rparr>
        \<lparr>Tool.name = ''delete_file'', description = None, inputSchema = []\<rparr> = True
   \<and> context_aware_filter
        \<lparr>agent = \<lparr>Agent.name = ''BasicAgent'', instructions = ''''\<rparr>, server_name = ''fs''\<rparr>
        \<lparr>Tool.name = ''read_text'', description = None, inputSchema = []\<rparr> = False"
  using
    context_aware_filter_roles [of
      "\<lparr>agent = \<lparr>Agent.name = '''', instructions = ''''\<rparr>, server_name = ''fs''\<rparr>"
      "\<lparr>Tool.name = ''read_file'', description = None, inputSchema = []\<rparr>"]
    context_aware_filter_roles [of
      "\<lparr>agent = \<lparr>Agent.name = ''ReadOnlyAgent'', instructions = ''''\<rparr>, server_name = ''fs''\<rparr>"
      "\<lparr>Tool.name = ''list_directory'', description = None, inputSchema = []\<rparr>"]
    context_aware_filter_roles [of
      "\<lparr>agent = \<lparr>Agent.name = ''ReadOnlyAgent'', instructions = ''''\<rparr>, server_name = ''fs''\<rparr>"
      "\<lparr>Tool.name = ''write_file'', description = None, inputSchema = []\<rparr>"]
    context_aware_filter_roles [of
      "\<lparr>agent = \<lparr>Agent.name = ''AdminAgent'', instructions = ''''\<rparr>, server_name = ''fs''\<rparr>"
      "\<lparr>Tool.name = ''delete_file'', description = None, inputSchema = []\<rparr>"]
    context_aware_filter_roles [of
      "\<lparr>agent = \<lparr>Agent.name = ''BasicAgent'', instructions = ''''\<rparr>, server_name = ''fs''\<rparr>"
      "\<lparr>Tool.name = ''read_text'', description = None, inputSchema = []\<rparr>"]
  by simp

text \<open>
  Claim C5. A static rule with a blocked set only is accepted when it is bound, and
  under it a descriptor passes exactly when its name is not in the set; the resolved catalog is the catalog's descriptors that pass, in
  the catalog's order. For a catalog named \<^verbatim>\<open>read_file\<close>, \<^verbatim>\<open>list_directory\<close>,
  \<^verbatim>\<open>write_file\<close>, \<^verbatim>\<open>delete_file\<close> and the rule the example binds (blocked:
  \<^verbatim>\<open>delete_file\<close>) the resolved catalog is the first three descriptors.
\<close>

theorem resolve_static_blocked:
  "bind_rule (Static None (Some B)) = Inr (Static None (Some B))
   \<and> evaluate (Static None (Some B)) ctx t = (Tool.name t \<notin> B)
   \<and> resolve (Static None (Some B)) ctx C = filter (\<lambda>t. Tool.name t \<notin> B) C
   \<and> map Tool.name (resolve (Static None (Some B)) ctx C) = filter (\<lambda>n. n \<notin> B) (map Tool.name C)
   \<and> subseq (resolve (Static None (Some B)) ctx C) C
   \<and> (map Tool.name C = [''read_file'', ''list_directory'', ''write_file'', ''delete_file''] \<longrightarrow>
        resolve static_rule_of_main ctx C = take 3 C
        \<and> map Tool.name (resolve static_rule_of_main ctx C) =
            [''read_file'', ''list_directory'', ''write_file''])"
proof -
  have ev: "evaluate (Static None (Some B')) ctx = (\<lambda>t. Tool.name t \<notin> B')" for B'
    by (rule ext) simp
  have r: "resolve (Static None (Some B')) ctx C' = filter (\<lambda>t. Tool.name t \<notin> B') C'" for B' C'
    by (simp add: resolve_def ev)
  have names: "map Tool.name (resolve (Static None (Some B)) ctx C) =
      filter (\<lambda>n. n \<notin> B) (map Tool.name C)"
    unfolding r by (rule resolve_names)
  have order: "subseq (resolve (Static None (Some B)) ctx C) C"
    by (simp add: r)
  have scen: "resolve static_rule_of_main ctx C = take 3 C
      \<and> map Tool.name (resolve static_rule_of_main ctx C) =
            [''read_file'', ''list_directory'', ''write_file'']"
    if "map Tool.name C = [''read_file'', ''list_directory'', ''write_file'', ''delete_file'']"
  proof -
    from that obtain t1 t2 t3 t4 where "C = [t1, t2, t3, t4]"
      "Tool.name t1 = ''read_file''" "Tool.name t2 = ''list_directory''"
      "Tool.name t3 = ''write_file''" "Tool.name t4 = ''delete_file''"
      by (rule four_names)
    then show ?thesis
      by (simp add: static_rule_of_main_def r)
  qed
  have bound: "bind_rule (Static None (Some B)) = Inr (Static None (Some B))"
    by simp
  have passes: "evaluate (Static None (Some B)) ctx t = (Tool.name t \<notin> B)"
    by simp
  show ?thesis
    using bound passes r [of B C] names order scen by blast
qed

text \<open>
  Claim C5, witness: the four tools of the filesystem server, asked for by the agent
  \<^verbatim>\<open>Assistant\<close>.
\<close>

theorem resolve_static_blocked_witness:
  "map Tool.name
     [\<lparr>Tool.name = ''read_file'', description = None, inputSchema = []\<rparr>,
      \<lparr>Tool.name = ''list_directory'', description = None, inputSchema = []\<rparr>,
      \<lparr>Tool.name = ''write_file'', description = None, inputSchema = []\<rparr>,
      \<lparr>Tool.name = ''delete_file'', description = None, inputSchema = []\<rparr>]
     = [''read_file'', ''list_directory'', ''write_file'', ''delete_file'']
   \<and> resolve static_rule_of_main
        \<lparr>agent = \<lparr>Agent.name = ''Assistant'', instructions = ''''\<rparr>, server_name = ''fs''\<rparr>
        [\<lparr>Tool.name = ''read_file'', description = None, inputSchema = []\<rparr>,
         \<lparr>Tool.name = ''list_directory'', description = None, inputSchema = []\<rparr>,
         \<lparr>Tool.name = ''write_file'', description = None, inputSchema = []\<rparr>,
         \<lparr>Tool.name = ''delete_file'', description = None, inputSchema = []\<rparr>]
     = [\<lparr>Tool.name = ''read_file'', description = None, inputSchema = []\<rparr>,
        \<lparr>Tool.name = ''list_directory'', description = None, inputSchema = []\<rparr>,
        \<lparr>Tool.name = ''write_file'', description = None, inputSchema = []\<rparr>]"
  using resolve_static_blocked [where
      C = "[\<lparr>Tool.name = ''read_file'', description = None, inputSchema = []\<rparr>,
            \<lparr>Tool.name = ''list_directory'', description = None, inputSchema = []\<rparr>,
            \<lparr>Tool.name = ''write_file'', description = None, inputSchema = []\<rparr>,
            \<lparr>Tool.name = ''delete_file'', description = None, inputSchema = []\<rparr>]"
      and ctx = "\<lparr>agent = \<lparr>Agent.name = ''Assistant'', instructions = ''''\<rparr>,
                  server_name = ''fs''\<rparr>"]
  by simp

text \<open>
  Claim C6. The dynamic filter of \<^verbatim>\<open>main.py\<close> allows a tool exactly when its name
  starts with \<^verbatim>\<open>read_\<close> or with \<^verbatim>\<open>list_\<close>. Applied to a catalog named
  \<^verbatim>\<open>read_file\<close>, \<^verbatim>\<open>list_directory\<close>, \<^verbatim>\<open>write_file\<close>, \<^verbatim>\<open>delete_file\<close> it
  resolves to the first two descriptors, and so does the role-based filter for
  \<^verbatim>\<open>ReadOnlyAgent\<close>.
\<close>

theorem custom_filter_read_list:
  "custom_filter ctx tool = (prefix ''read_'' (Tool.name tool) \<or> prefix ''list_'' (Tool.name tool))
   \<and> (map Tool.name C = [''read_file'', ''list_directory'', ''write_file'', ''delete_file''] \<longrightarrow>
        resolve dynamic_rule_of_main ctx C = take 2 C
        \<and> map Tool.name (resolve dynamic_rule_of_main ctx C) = [''read_file'', ''list_directory''])
   \<and> (map Tool.name C = [''read_file'', ''list_directory'', ''write_file'', ''delete_file'']
        \<and> Agent.name (agent ctx) = ''ReadOnlyAgent'' \<longrightarrow>
        resolve (Dynamic (\<lambda>c t. Some (context_aware_filter c t))) ctx C = take 2 C)"
proof -
  have dyn: "resolve (Dynamic (\<lambda>c t. Some (p c t))) ctx C' = filter (p ctx) C'" for p C'
    by (simp add: resolve_def cong: filter_cong)
  have scen: "map Tool.name C = [''read_file'', ''list_directory'', ''write_file'', ''delete_file''] \<longrightarrow>
      resolve dynamic_rule_of_main ctx C = take 2 C
      \<and> map Tool.name (resolve dynamic_rule_of_main ctx C) = [''read_file'', ''list_directory'']"
  proof (rule impI)
    assume "map Tool.name C = [''read_file'', ''list_directory'', ''write_file'', ''delete_file'']"
    then obtain t1 t2 t3 t4 where "C = [t1, t2, t3, t4]"
      "Tool.name t1 = ''read_file''" "Tool.name t2 = ''list_directory''"
      "Tool.name t3 = ''write_file''" "Tool.name t4 = ''delete_file''"
      by (rule four_names)
    then show "resolve dynamic_rule_of_main ctx C = take 2 C
      \<and> map Tool.name (resolve dynamic_rule_of_main ctx C) = [''read_file'', ''list_directory'']"
      by (simp add: dynamic_rule_of_main_def dyn custom_filter_prefix)
  qed
  have role: "map Tool.name C = [''read_file'', ''list_directory'', ''write_file'', ''delete_file'']
      \<and> Agent.name (agent ctx) = ''ReadOnlyAgent'' \<longrightarrow>
      resolve (Dynamic (\<lambda>c t. Some (context_aware_filter c t))) ctx C = take 2 C"
  proof (rule impI, elim conjE)
    assume ro: "Agent.name (agent ctx) = ''ReadOnlyAgent''"
    assume "map Tool.name C = [''read_file'', ''list_directory'', ''write_file'', ''delete_file'']"
    then obtain t1 t2 t3 t4 where "C = [t1, t2, t3, t4]"
      "Tool.name t1 = ''read_file''" "Tool.name t2 = ''list_directory''"
      "Tool.name t3 = ''write_file''" "Tool.name t4 = ''delete_file''"
      by (rule four_names)
    with ro show "resolve (Dynamic (\<lambda>c t. Some (context_aware_filter c t))) ctx C = take 2 C"
      by (simp add: dyn context_aware_filter_def startswith_prefix)
  qed
  show ?thesis
    by (rule conjI [OF custom_filter_prefix conjI [OF scen role]])
qed

text \<open>
  Claim C6, witness: the four tools of the filesystem server, asked for by
  \<^verbatim>\<open>ReadOnlyAgent\<close>.
\<close>

theorem custom_filter_read_list_witness:
  "map Tool.name
     [\<lparr>Tool.name = ''read_file'', description = None, inputSchema = []\<rparr>,
      \<lparr>Tool.name = ''list_directory'', description = None, inputSchema = []\<rparr>,
      \<lparr>Tool.name = ''write_file'', description = None, inputSchema = []\<rparr>,
      \<lparr>Tool.name = ''delete_file'', description = None, inputSchema = []\<rparr>]
     = [''read_file'', ''list_directory'', ''write_file'', ''delete_file'']
   \<and> Agent.name (agent \<lparr>agent = \<lparr>Agent.name = ''ReadOnlyAgent'', instructions = ''''\<rparr>,
         server_name = ''fs''\<rparr>) = ''ReadOnlyAgent''
   \<and> resolve dynamic_rule_of_main
        \<lparr>agent = \<lparr>Agent.name = ''ReadOnlyAgent'', instructions = ''''\<rparr>, server_name = ''fs''\<rparr>
        [\<lparr>Tool.name = ''read_file'', description = None, inputSchema = []\<rparr>,
         \<lparr>Tool.name = ''list_directory'', description = None, inputSchema = []\<rparr>,
         \<lparr>Tool.name = ''write_file'', description = None, inputSchema = []\<rparr>,
         \<lparr>Tool.name = ''delete_file'', description = None, inputSchema = []\<rparr>]
     = [\<lparr>Tool.name = ''read_file'', description = None, inputSchema = []\<rparr>,
        \<lparr>Tool.name = ''list_directory'', description = None, inputSchema = []\<rparr>]
   \<and> resolve (Dynamic (\<lambda>c t. Some (context_aware_filter c t)))
        \<lparr>agent = \<lparr>Agent.name = ''ReadOnlyAgent'', instructions = ''''\<rparr>, server_name = ''fs''\<rparr>
        [\<lparr>Tool.name = ''read_file'', description = None, inputSchema = []\<rparr>,
         \<lparr>Tool.name = ''list_directory'', description = None, inputSchema = []\<rparr>,
         \<lparr>Tool.name = ''write_file'', description = None, inputSchema = []\<rparr>,
         \<lparr>Tool.name = ''delete_file'', description = None, inputSchema = []\<rparr>]
     = [\<lparr>Tool.name = ''read_file'', description = None, inputSchema = []\<rparr>,
        \<lparr>Tool.name = ''list_directory'', description = None, inputSchema = []\<rparr>]"
  using custom_filter_read_list [where
      C = "[\<lparr>Tool.name = ''read_file'', description = None, inputSchema = []\<rparr>,
            \<lparr>Tool.name = ''list_directory'', description = None, inputSchema = []\<rparr>,
            \<lparr>Tool.name = ''write_file'', description = None, inputSchema = []\<rparr>,
            \<lparr>Tool.name = ''delete_file'', description = None, inputSchema = []\<rparr>]"
      and ctx = "\<lparr>agent = \<lparr>Agent.name = ''ReadOnlyAgent'', instructions = ''''\<rparr>,
                  server_name = ''fs''\<rparr>"]
  by simp

text \<open>
  Claim C7. A filter evaluation is deterministic and free of side effects: run on two
  states that hold equal contexts and equal tools (whatever their globals), each of the
  two filters returns the same decision, and every state is after the call what it was
  before it: the context, the tool and the globals are unchanged.
\<close>

theorem filter_calls_deterministic_pure:
  "(context_obj h = context_obj h' \<and> tool_obj h = tool_obj h' \<longrightarrow>
      fst (run_state context_aware_filter_call h) = fst (run_state context_aware_filter_call h')
      \<and> fst (run_state custom_filter_call h) = fst (run_state custom_filter_call h'))
   \<and> snd (run_state context_aware_filter_call h) = h
   \<and> snd (run_state custom_filter_call h) = h"
  by (simp add: call_context_aware_filter call_custom_filter)

text \<open>
  Claim C7, witness: \<^verbatim>\<open>BasicAgent\<close> asks for \<^verbatim>\<open>read_file\<close> in two states whose
  globals all differ; the decision is the same, and the call returns the state it
  started in.
\<close>

theorem filter_calls_deterministic_pure_witness:
  "context_obj
     \<lparr>context_obj = \<lparr>agent = \<lparr>Agent.name = ''BasicAgent'', instructions = ''''\<rparr>,
        server_name = ''fs''\<rparr>,
      tool_obj = \<lparr>Tool.name = ''read_file'', description = None, inputSchema = []\<rparr>,
      BASE_URL = None, API_KEY = None, MODEL_NAME = ''gpt-4o'', tracing_disabled = False\<rparr>
   = context_obj
     \<lparr>context_obj = \<lparr>agent = \<lparr>Agent.name = ''BasicAgent'', instructions = ''''\<rparr>,
        server_name = ''fs''\<rparr>,
      tool_obj = \<lparr>Tool.name = ''read_file'', description = None, inputSchema = []\<rparr>,
      BASE_URL = Some ''https://example.test/v1'', API_KEY = Some ''sk-test'',
      MODEL_NAME = ''gpt-4o-mini'', tracing_disabled = True\<rparr>
   \<and> fst (run_state context_aware_filter_call
     \<lparr>context_obj = \<lparr>agent = \<lparr>Agent.name = ''BasicAgent'', instructions = ''''\<rparr>,
        server_name = ''fs''\<rparr>,
      tool_obj = \<lparr>Tool.name = ''read_file'', description = None, inputSchema = []\<rparr>,
      BASE_URL = None, API_KEY = None, MODEL_NAME = ''gpt-4o'', tracing_disabled = False\<rparr>)
   = fst (run_state context_aware_filter_call
     \<lparr>context_obj = \<lparr>agent = \<lparr>Agent.name = ''BasicAgent'', instructions = ''''\<rparr>,
        server_name = ''fs''\<rparr>,
      tool_obj = \<lparr>Tool.name = ''read_file'', description = None, inputSchema = []\<rparr>,
      BASE_URL = Some ''https://example.test/v1'', API_KEY = Some ''sk-test'',
      MODEL_NAME = ''gpt-4o-mini'', tracing_disabled = True\<rparr>)
   \<and> run_state context_aware_filter_call
     \<lparr>context_obj = \<lparr>agent = \<lparr>Agent.name = ''BasicAgent'', instructions = ''''\<rparr>,
        server_name = ''fs''\<rparr>,
      tool_obj = \<lparr>Tool.name = ''read_file'', description = None, inputSchema = []\<rparr>,
      BASE_URL = None, API_KEY = None, MODEL_NAME = ''gpt-4o'', tracing_disabled = False\<rparr>
   = (True,
     \<lparr>context_obj = \<lparr>agent = \<lparr>Agent.name = ''BasicAgent'', instructions = ''''\<rparr>,
        server_name = ''fs''\<rparr>,
      tool_obj = \<lparr>Tool.name = ''read_file'', description = None, inputSchema = []\<rparr>,
      BASE_URL = None, API_KEY = None, MODEL_NAME = ''gpt-4o'', tracing_disabled = False\<rparr>)"
  using filter_calls_deterministic_pure [of
     "\<lparr>context_obj = \<lparr>agent = \<lparr>Agent.name = ''BasicAgent'', instructions = ''''\<rparr>,
        server_name = ''fs''\<rparr>,
      tool_obj = \<lparr>Tool.name = ''read_file'', description = None, inputSchema = []\<rparr>,
      BASE_URL = None, API_KEY = None, MODEL_NAME = ''gpt-4o'', tracing_disabled = False\<rparr>"
     "\<lparr>context_obj = \<lparr>agent = \<lparr>Agent.name = ''BasicAgent'', instructions = ''''\<rparr>,
        server_name = ''fs''\<rparr>,
      tool_obj = \<lparr>Tool.name = ''read_file'', description = None, inputSchema = []\<rparr>,
      BASE_URL = Some ''https://example.test/v1'', API_KEY = Some ''sk-test'',
      MODEL_NAME = ''gpt-4o-mini'', tracing_disabled = True\<rparr>"]
  by (simp add: context_aware_filter_call_def attr_def)

subsection \<open>Frame and edge cases of the model provider\<close>

text \<open>
  Claim C8. Resolving never mutates the resolver: after every sequence of
  \<^verbatim>\<open>get_model\<close> calls the provider object (its \<^verbatim>\<open>base_url\<close>, \<^verbatim>\<open>api_key\<close>,
  \<^verbatim>\<open>default_model\<close> and \<^verbatim>\<open>client\<close>) is the one the sequence started with, and each
  call had the outcome that a call on the fresh provider has. The same holds for the
  globals that the provider of \<^verbatim>\<open>stream_items.py\<close> reads.
\<close>

theorem get_model_calls_frame:
  "run_state (get_model_calls ns) self = (map (get_model self) ns, self)
   \<and> run_state (get_model_stream_items_calls ns) g = (map (get_model_stream_items g) ns, g)"
proof (induction ns)
  case Nil
  show ?case by simp
next
  case (Cons n ns)
  then show ?case
    by (simp add: call_get_model call_get_model_stream_items)
qed

text \<open>
  Claim C9, as amended. An empty requested name is treated as an absent one:
  \<^verbatim>\<open>get_model("")\<close> has the outcome of \<^verbatim>\<open>get_model(None)\<close>. On a provider that has
  a client it returns a model whose id is the configured default; that id is not the
  empty string when the default is not empty. The provider of \<^verbatim>\<open>stream_items.py\<close>
  treats the empty name as absent in the same way.
\<close>

theorem get_model_empty_name:
  "get_model self (Some '''') = get_model self None
   \<and> (CustomModelProvider.client self = Some c \<longrightarrow>
        get_model self (Some '''')
          = Inr \<lparr>model = Some (default_model self), openai_client = c\<rparr>)
   \<and> (get_model self (Some '''') = Inr m \<and> default_model self \<noteq> [] \<longrightarrow>
        model m = Some (default_model self) \<and> model m \<noteq> Some '''')
   \<and> get_model_stream_items g (Some '''') = get_model_stream_items g None
   \<and> model (get_model_stream_items g (Some '''')) = stream_items.MODEL_NAME g"
proof -
  have same: "get_model self (Some '''') = get_model self None"
    by (simp add: get_model_def Let_def)
  have with_client: "CustomModelProvider.client self = Some c \<longrightarrow>
      get_model self (Some '''') = Inr \<lparr>model = Some (default_model self), openai_client = c\<rparr>"
    by (simp add: get_model_with_client)
  have not_empty: "get_model self (Some '''') = Inr m \<and> default_model self \<noteq> [] \<longrightarrow>
      model m = Some (default_model self) \<and> model m \<noteq> Some ''''"
  proof (rule impI, elim conjE)
    assume a: "get_model self (Some '''') = Inr m" and b: "default_model self \<noteq> []"
    from get_model_returns [OF a] have "model m = Some (default_model self)" by simp
    with b show "model m = Some (default_model self) \<and> model m \<noteq> Some ''''" by simp
  qed
  have stream: "get_model_stream_items g (Some '''') = get_model_stream_items g None"
    by (simp add: get_model_stream_items_def)
  have stream_id: "model (get_model_stream_items g (Some '''')) = stream_items.MODEL_NAME g"
    by (simp add: get_model_stream_items_def)
  show ?thesis
    by (rule conjI [OF same conjI [OF with_client conjI [OF not_empty
          conjI [OF stream stream_id]]]])
qed

text \<open>
  Claim C9, witness: a fully configured provider with the default \<^verbatim>\<open>gpt-4o\<close>, asked
  for the empty name, returns the model \<^verbatim>\<open>gpt-4o\<close>.
\<close>

theorem get_model_empty_name_witness:
  "CustomModelProvider.client
     (CustomModelProvider_init (Some ''https://example.test/v1'') (Some ''sk-test'') ''gpt-4o'')
     = Some \<lparr>AsyncOpenAI.base_url = Some ''https://example.test/v1'',
             AsyncOpenAI.api_key = Some ''sk-test''\<rparr>
   \<and> default_model
        (CustomModelProvider_init (Some ''https://example.test/v1'') (Some ''sk-test'') ''gpt-4o'')
       \<noteq> []
   \<and> get_model
        (CustomModelProvider_init (Some ''https://example.test/v1'') (Some ''sk-test'') ''gpt-4o'')
        (Some '''')
       = Inr \<lparr>model = Some ''gpt-4o'',
              openai_client = \<lparr>AsyncOpenAI.base_url = Some ''https://example.test/v1'',
                AsyncOpenAI.api_key = Some ''sk-test''\<rparr>\<rparr>
   \<and> model \<lparr>model = Some ''gpt-4o'',
              openai_client = \<lparr>AsyncOpenAI.base_url = Some ''https://example.test/v1'',
                AsyncOpenAI.api_key = Some ''sk-test''\<rparr>\<rparr> \<noteq> Some ''''"
  using get_model_empty_name [where
      self = "CustomModelProvider_init (Some ''https://example.test/v1'') (Some ''sk-test'') ''gpt-4o''"
      and c = "\<lparr>AsyncOpenAI.base_url = Some ''https://example.test/v1'',
                AsyncOpenAI.api_key = Some ''sk-test''\<rparr>"
      and m = "\<lparr>model = Some ''gpt-4o'',
                openai_client = \<lparr>AsyncOpenAI.base_url = Some ''https://example.test/v1'',
                  AsyncOpenAI.api_key = Some ''sk-test''\<rparr>\<rparr>"]
  by (simp add: get_model_def Let_def client_init default_model_init)

text \<open>
  Claim C9, as stated, fails: on a fully configured provider whose default model id is
  the empty string, \<^verbatim>\<open>get_model("")\<close> returns a model whose id is the empty string.
\<close>

theorem get_model_empty_name_counterexample:
  "get_model
     (CustomModelProvider_init (Some ''https://example.test/v1'') (Some ''sk-test'') '''')
     (Some '''')
    = Inr \<lparr>model = Some '''',
           openai_client = \<lparr>AsyncOpenAI.base_url = Some ''https://example.test/v1'',
             AsyncOpenAI.api_key = Some ''sk-test''\<rparr>\<rparr>"
  by (simp add: get_model_def Let_def client_init default_model_init)

subsection \<open>Noninterference of the filters\<close>

text \<open>
  Claim C10. The decision of the role-based filter depends on the agent's name and the
  tool's name only: two contexts with equal agent names and two tools with equal names
  get the same decision, whatever else they hold. The decision of \<^verbatim>\<open>custom_filter\<close>
  depends on the tool's name only, and not on the context at all.
\<close>

theorem filter_noninterference:
  "(Agent.name (agent c1) = Agent.name (agent c2) \<and> Tool.name t1 = Tool.name t2 \<longrightarrow>
      context_aware_filter c1 t1 = context_aware_filter c2 t2)
   \<and> (Tool.name t1 = Tool.name t2 \<longrightarrow> custom_filter c1 t1 = custom_filter c2 t2)
   \<and> custom_filter c1 t1 = custom_filter c2 t1"
  by (simp add: context_aware_filter_def custom_filter_def)

text \<open>
  Claim C10, witness: two contexts of \<^verbatim>\<open>BasicAgent\<close> that differ in the agent's
  instructions and in the server's name, and two descriptors of \<^verbatim>\<open>read_file\<close> that
  differ in their metadata.
\<close>

theorem filter_noninterference_witness:
  "Agent.name (agent \<lparr>agent = \<lparr>Agent.name = ''BasicAgent'', instructions = ''a''\<rparr>,
       server_name = ''fs''\<rparr>)
     = Agent.name (agent \<lparr>agent = \<lparr>Agent.name = ''BasicAgent'', instructions = ''b''\<rparr>,
       server_name = ''other''\<rparr>)
   \<and> Tool.name \<lparr>Tool.name = ''read_file'', description = None, inputSchema = []\<rparr>
     = Tool.name \<lparr>Tool.name = ''read_file'', description = Some ''d'', inputSchema = [(''k'', ''v'')]\<rparr>
   \<and> context_aware_filter
        \<lparr>agent = \<lparr>Agent.name = ''BasicAgent'', instructions = ''a''\<rparr>, server_name = ''fs''\<rparr>
        \<lparr>Tool.name = ''read_file'', description = None, inputSchema = []\<rparr>
     = context_aware_filter
        \<lparr>agent = \<lparr>Agent.name = ''BasicAgent'', instructions = ''b''\<rparr>, server_name = ''other''\<rparr>
        \<lparr>Tool.name = ''read_file'', description = Some ''d'', inputSchema = [(''k'', ''v'')]\<rparr>
   \<and> custom_filter
        \<lparr>agent = \<lparr>Agent.name = ''BasicAgent'', instructions = ''a''\<rparr>, server_name = ''fs''\<rparr>
        \<lparr>Tool.name = ''read_file'', description = None, inputSchema = []\<rparr>
     = custom_filter
        \<lparr>agent = \<lparr>Agent.name = ''BasicAgent'', instructions = ''b''\<rparr>, server_name = ''other''\<rparr>
        \<lparr>Tool.name = ''read_file'', description = Some ''d'', inputSchema = [(''k'', ''v'')]\<rparr>"
  using filter_noninterference [of
      "\<lparr>agent = \<lparr>Agent.name = ''BasicAgent'', instructions = ''a''\<rparr>, server_name = ''fs''\<rparr>"
      "\<lparr>agent = \<lparr>Agent.name = ''BasicAgent'', instructions = ''b''\<rparr>, server_name = ''other''\<rparr>"
      "\<lparr>Tool.name = ''read_file'', description = None, inputSchema = []\<rparr>"
      "\<lparr>Tool.name = ''read_file'', description = Some ''d'', inputSchema = [(''k'', ''v'')]\<rparr>"]
  by simp

end
